theory Spec2Isabelle
  imports Main
begin

section \<open>git-bin: the binstore and the GitBin orchestrator of \<open>git-bin.py\<close>\<close>

text \<open>
  The program is Python 2. Its file imports three modules of the same repository that are
  not part of the source at hand (\<open>utils\<close>, \<open>commands\<close>, \<open>git\<close>). What the program
  uses of them, and of the standard library's view of the file system, is a field of the
  record \<open>env\<close> below: the functions of this theory take it as a parameter, and the
  general theorems hold for every such environment. The outside world (file system, index,
  configuration) is an abstract type \<open>'w\<close>; what the program does to it is recorded,
  call by call, in a log.

  The file also calls four methods on the binstore object, \<open>has_file\<close>, \<open>has\<close>,
  \<open>get_binstore_filename\<close> and \<open>digest\<close>. Neither \<open>Binstore\<close> nor
  \<open>FilesystemBinstore\<close> defines them, and both classes are complete in the file: looking
  any of them up on the object raises \<open>AttributeError\<close>, and that is how they are
  modelled.
\<close>

subsection \<open>Exceptions, commands, output and events\<close>

datatype error =
    PyException string              \<comment> \<open>\<open>raise Exception(msg)\<close>\<close>
  | UnknownCommandException string  \<comment> \<open>the class defined in the file; the argument is the name\<close>
  | TypeError string                \<comment> \<open>calling an attribute that is no handler\<close>
  | AttributeError string           \<comment> \<open>looking up a method that the object does not have\<close>
  | SystemExit int                  \<comment> \<open>argparse rejecting the command line\<close>
  | CollaboratorError string        \<comment> \<open>anything raised inside utils, commands or git\<close>

text \<open>The command objects of the \<open>commands\<close> module that the file constructs.\<close>

datatype command =
    MakeDirectoryCommand string
  | LinkToFileCommand string string
  | SafeMoveFileCommand string string
  | ChmodCommand int string
  | GitAddCommand string
  | CopyFileCommand string string

text \<open>The lines the orchestrator prints, one constructor per \<open>print\<close> statement.\<close>

datatype msg =
    Msg_call string "string list"   \<comment> \<open>\<open>"GitBin.add(%s)" % filenames\<close> and its two siblings\<close>
  | Msg_file string                 \<comment> \<open>\<open>"\t%s" % filename\<close>\<close>
  | Msg_no_match string             \<comment> \<open>\<open>"'%s' did not match any files"\<close>\<close>
  | Msg_islink                      \<comment> \<open>\<open>"islink: DO_GIT_ADD"\<close>\<close>
  | Msg_recursing string            \<comment> \<open>\<open>"\trecursing into %s"\<close>\<close>
  | Msg_hint_checkout string        \<comment> \<open>\<open>"you probably meant to do: git bin checkout -- %s"\<close>\<close>
  | Msg_hint_reset string           \<comment> \<open>\<open>"you probably meant to do: git bin reset %s"\<close>\<close>

text \<open>
  An event is one call that leaves the program: a line printed, a command executed by a
  \<open>CompoundCommand\<close>, or a mutating method of the repository object.
\<close>

datatype event =
    Print msg
  | Exec command
  | RepoAdd string                  \<comment> \<open>\<open>gitrepo.add(filename)\<close>\<close>
  | RepoUnstage string              \<comment> \<open>\<open>gitrepo.unstage(filename)\<close>\<close>
  | RepoRestore string              \<comment> \<open>\<open>gitrepo.restore(filename)\<close>\<close>
  | ConfigSet string string string  \<comment> \<open>\<open>gitrepo.config.set(section, key, value)\<close>\<close>

fun is_mutation :: "event \<Rightarrow> bool" where
  "is_mutation (Print m) = False"
| "is_mutation (Exec c) = True"
| "is_mutation (RepoAdd f) = True"
| "is_mutation (RepoUnstage f) = True"
| "is_mutation (RepoRestore f) = True"
| "is_mutation (ConfigSet s k v) = True"

definition mutations :: "event list \<Rightarrow> event list" where
  "mutations evs = filter is_mutation evs"

text \<open>
  How a statement ends: it returns, or it raises. The recursion of \<open>add\<close> through
  directories is bounded by fuel, and running out of it is the third outcome.
\<close>

datatype outcome = Returned | Raised error | OutOfFuel

definition outcome_of :: "error option \<Rightarrow> outcome" where
  "outcome_of r = (case r of None \<Rightarrow> Returned | Some e \<Rightarrow> Raised e)"

record 'w state =
  world :: 'w
  log :: "event list"

subsection \<open>The standard library: strings, \<open>os.path.join\<close>, \<open>stat\<close>\<close>

definition startswith :: "string \<Rightarrow> string \<Rightarrow> bool" where
  "startswith s p = (take (length p) s = p)"

definition endswith :: "string \<Rightarrow> string \<Rightarrow> bool" where
  "endswith s p = (length p \<le> length s \<and> drop (length s - length p) s = p)"

text \<open>\<open>posixpath.join\<close> for one more component, and for the list of components.\<close>

definition os_path_join2 :: "string \<Rightarrow> string \<Rightarrow> string" where
  "os_path_join2 a b =
     (if startswith b ''/'' then b
      else if a = [] \<or> endswith a ''/'' then a @ b
      else a @ ''/'' @ b)"

definition os_path_join :: "string \<Rightarrow> string list \<Rightarrow> string" where
  "os_path_join a ps = foldl os_path_join2 a ps"

definition S_IRUSR :: int where "S_IRUSR = 256"
definition S_IWUSR :: int where "S_IWUSR = 128"
definition S_IRGRP :: int where "S_IRGRP = 32"
definition S_IWGRP :: int where "S_IWGRP = 16"
definition S_IROTH :: int where "S_IROTH = 4"
definition S_IWOTH :: int where "S_IWOTH = 2"

subsection \<open>The collaborators that are not in the file\<close>

text \<open>The two attributes of a \<open>FilesystemBinstore\<close> object.\<close>

record binstore =
  localpath :: string
  path :: string

record 'w env =
  \<comment> \<open>\<open>os\<close> and \<open>os.path\<close>, reading the world\<close>
  os_path_exists :: "'w \<Rightarrow> string \<Rightarrow> bool"
  os_path_islink :: "'w \<Rightarrow> string \<Rightarrow> bool"
  os_path_isdir :: "'w \<Rightarrow> string \<Rightarrow> bool"
  os_readlink :: "'w \<Rightarrow> string \<Rightarrow> string"
  os_listdir :: "'w \<Rightarrow> string \<Rightarrow> string list option"
  \<comment> \<open>module \<open>utils\<close>\<close>
  md5_file :: "'w \<Rightarrow> string \<Rightarrow> error + string"
  expand_filenames :: "'w \<Rightarrow> string list \<Rightarrow> string list"
  is_file_binary :: "'w \<Rightarrow> string \<Rightarrow> error + bool"
  \<comment> \<open>module \<open>git\<close>: the repository object and the status constants\<close>
  gitrepo_path :: string
  gitrepo_reponame :: string
  gitrepo_status :: "'w \<Rightarrow> string \<Rightarrow> int"
  gitrepo_add :: "string \<Rightarrow> 'w \<Rightarrow> error option \<times> 'w"
  gitrepo_unstage :: "string \<Rightarrow> 'w \<Rightarrow> error option \<times> 'w"
  gitrepo_restore :: "string \<Rightarrow> 'w \<Rightarrow> error option \<times> 'w"
  config_get :: "'w \<Rightarrow> string \<Rightarrow> string \<Rightarrow> string option"
  config_set :: "string \<Rightarrow> string \<Rightarrow> string \<Rightarrow> 'w \<Rightarrow> error option \<times> 'w"
  STATUS_STAGED_MASK :: int
  STATUS_STAGED :: int
  STATUS_CHANGED_MASK :: int
  STATUS_UNTRACKED :: int
  STATUS_MODIFIED :: int
  STATUS_TYPECHANGED :: int
  \<comment> \<open>module \<open>commands\<close>: what executing one command does\<close>
  run_command :: "command \<Rightarrow> 'w \<Rightarrow> error option \<times> 'w"

subsection \<open>Printing, calling out, and \<open>CompoundCommand.execute\<close>\<close>

definition say :: "msg \<Rightarrow> 'w state \<Rightarrow> 'w state" where
  "say m st = st\<lparr>log := log st @ [Print m]\<rparr>"

text \<open>
  A mutating call: the event is logged, the world is the one the callee leaves behind,
  and an exception of the callee is raised on.
\<close>

definition invoke :: "event \<Rightarrow> ('w \<Rightarrow> error option \<times> 'w) \<Rightarrow> 'w state \<Rightarrow> error option \<times> 'w state" where
  "invoke ev f st =
     (case f (world st) of (r, w') \<Rightarrow> (r, \<lparr>world = w', log = log st @ [ev]\<rparr>))"

text \<open>
  Modelled from the spec: \<open>CompoundCommand.execute\<close> of the missing \<open>commands\<close> module.
  The steps run strictly in order; the first step to fail aborts the remaining steps and
  its error is raised on unchanged; nothing is rolled back.
\<close>

fun execute :: "'w env \<Rightarrow> command list \<Rightarrow> 'w state \<Rightarrow> error option \<times> 'w state" where
  "execute env [] st = (None, st)"
| "execute env (c # cs) st =
     (case invoke (Exec c) (run_command env c) st of
        (None, st') \<Rightarrow> execute env cs st'
      | (Some e, st') \<Rightarrow> (Some e, st'))"

subsection \<open>\<open>FilesystemBinstore\<close>\<close>

definition no_binstorebase :: string where
  "no_binstorebase =
     ''No git-bin.binstorebase is specified. You probably want to add this to your ~/.gitconfig''"

text \<open>
  \<open>FilesystemBinstore.init\<close>. The method assigns \<open>self.path\<close>; the model returns the
  object with the new attribute. \<open>not binstore_base\<close> holds for \<open>None\<close> and for the
  empty string.
\<close>

definition init :: "'w env \<Rightarrow> binstore \<Rightarrow> 'w state \<Rightarrow> (error + binstore) \<times> 'w state" where
  "init env self st =
     (case config_get env (world st) ''git-bin'' ''binstorebase'' of
        None \<Rightarrow> (Inl (PyException no_binstorebase), st)
      | Some binstore_base \<Rightarrow>
          if binstore_base = [] then (Inl (PyException no_binstorebase), st)
          else
            let self' = self\<lparr>path := os_path_join binstore_base [gitrepo_reponame env]\<rparr> in
            (case execute env
                    [MakeDirectoryCommand (path self'),
                     LinkToFileCommand (localpath self') (path self')] st of
               (None, st1) \<Rightarrow>
                 (case invoke (ConfigSet ''binstore'' ''path'' (path self'))
                         (config_set env ''binstore'' ''path'' (path self')) st1 of
                    (None, st2) \<Rightarrow> (Inr self', st2)
                  | (Some e, st2) \<Rightarrow> (Inl e, st2))
             | (Some e, st1) \<Rightarrow> (Inl e, st1)))"

text \<open>
  \<open>FilesystemBinstore.__init__\<close>: \<open>not self.path\<close> holds when the configuration has no
  \<open>binstore.path\<close> and when it has the empty string.
\<close>

definition FilesystemBinstore :: "'w env \<Rightarrow> 'w state \<Rightarrow> (error + binstore) \<times> 'w state" where
  "FilesystemBinstore env st =
     (let lp = os_path_join (gitrepo_path env) [''.git'', ''binstore''] in
      case config_get env (world st) ''binstore'' ''path'' of
        None \<Rightarrow> init env \<lparr>localpath = lp, path = []\<rparr> st
      | Some p \<Rightarrow>
          if p = [] then init env \<lparr>localpath = lp, path = []\<rparr> st
          else (Inr \<lparr>localpath = lp, path = p\<rparr>, st))"

text \<open>\<open>FilesystemBinstore.add_file\<close>: the four commands, and their execution.\<close>

definition add_file_commands :: "binstore \<Rightarrow> string \<Rightarrow> string \<Rightarrow> command list" where
  "add_file_commands self filename dg =
     (let binstore_filename = os_path_join (localpath self) [dg] in
      [SafeMoveFileCommand filename binstore_filename,
       LinkToFileCommand filename binstore_filename,
       ChmodCommand (or S_IRUSR (or S_IRGRP S_IROTH)) binstore_filename,
       GitAddCommand filename])"

definition add_file :: "'w env \<Rightarrow> binstore \<Rightarrow> string \<Rightarrow> 'w state \<Rightarrow> error option \<times> 'w state" where
  "add_file env self filename st =
     (case md5_file env (world st) filename of
        Inl e \<Rightarrow> (Some e, st)
      | Inr dg \<Rightarrow> execute env (add_file_commands self filename dg) st)"

text \<open>
  The four methods that the file calls on the binstore and that no class defines. The
  attribute lookup \<open>self.has_file\<close> fails before the argument is evaluated, whatever the
  object and the argument are.
\<close>

definition has_file :: "binstore \<Rightarrow> string \<Rightarrow> error + bool" where
  "has_file self item = Inl (AttributeError ''has_file'')"

definition has :: "binstore \<Rightarrow> string \<Rightarrow> error + bool" where
  "has self filename = Inl (AttributeError ''has'')"

definition get_binstore_filename :: "binstore \<Rightarrow> string \<Rightarrow> error + string" where
  "get_binstore_filename self filename = Inl (AttributeError ''get_binstore_filename'')"

definition digest :: "binstore \<Rightarrow> string \<Rightarrow> error + string" where
  "digest self filename = Inl (AttributeError ''digest'')"

text \<open>
  \<open>FilesystemBinstore.is_binstore_link\<close>. The \<open>and\<close> calls \<open>self.has_file\<close> only when
  the target of the link starts with \<open>self.path\<close>.
\<close>

definition is_binstore_link :: "'w env \<Rightarrow> binstore \<Rightarrow> 'w \<Rightarrow> string \<Rightarrow> error + bool" where
  "is_binstore_link env self w filename =
     (if \<not> os_path_islink env w filename then Inr False
      else if startswith (os_readlink env w filename) (path self) then
        (case has_file self (os_readlink env w filename) of
           Inl e \<Rightarrow> Inl e
         | Inr True \<Rightarrow> Inr True
         | Inr False \<Rightarrow> Inr False)
      else Inr False)"

subsection \<open>\<open>GitBin.add\<close>\<close>

text \<open>
  \<open>add\<close> calls itself on the entries of every directory that \<open>os.walk\<close> yields, and
  \<open>os.walk\<close> is a generator: it lists a directory only when the loop asks for the next
  triple, that is after the loop body has run on the previous one. \<open>walk\<close> is the loop
  \<open>for root, dirs, files in os.walk(filename)\<close> with its body, \<open>walk_dirs\<close> the loop of
  \<open>os.walk\<close> over the subdirectories (it does not follow links; a directory that cannot
  be listed yields nothing). The first argument is the fuel: \<open>add\<close> and \<open>walk\<close> use up
  one unit at each call.
\<close>

function (sequential) add :: "nat \<Rightarrow> 'w env \<Rightarrow> binstore \<Rightarrow> string list \<Rightarrow> 'w state \<Rightarrow> outcome \<times> 'w state"
and add_loop :: "nat \<Rightarrow> 'w env \<Rightarrow> binstore \<Rightarrow> string list \<Rightarrow> 'w state \<Rightarrow> outcome \<times> 'w state"
and walk :: "nat \<Rightarrow> 'w env \<Rightarrow> binstore \<Rightarrow> string \<Rightarrow> 'w state \<Rightarrow> outcome \<times> 'w state"
and walk_dirs :: "nat \<Rightarrow> 'w env \<Rightarrow> binstore \<Rightarrow> string \<Rightarrow> string list \<Rightarrow> 'w state \<Rightarrow> outcome \<times> 'w state"
where
  "add 0 env binstore filenames st = (OutOfFuel, st)"
| "add (Suc n) env binstore filenames st =
     (let filenames' = expand_filenames env (world st) filenames in
      add_loop n env binstore filenames' (say (Msg_call ''GitBin.add'' filenames') st))"
| "add_loop n env binstore [] st = (Returned, st)"
| "add_loop n env binstore (filename # rest) st =
     (let st1 = say (Msg_file filename) st; w = world st in
      if \<not> os_path_exists env w filename then
        add_loop n env binstore rest (say (Msg_no_match filename) st1)
      else
        (case (if os_path_islink env w filename
               then (case has_file binstore (os_readlink env w filename) of
                       Inl e \<Rightarrow> Inl e
                     | Inr h \<Rightarrow> Inr (\<not> h))
               else Inr False) of
           Inl e \<Rightarrow> (Raised e, st1)
         | Inr True \<Rightarrow> add_loop n env binstore rest (say Msg_islink st1)
         | Inr False \<Rightarrow>
             (case is_file_binary env w filename of
                Inl e \<Rightarrow> (Raised e, st1)
              | Inr False \<Rightarrow>
                  (case invoke (RepoAdd filename) (gitrepo_add env filename) st1 of
                     (None, st2) \<Rightarrow> add_loop n env binstore rest st2
                   | (Some e, st2) \<Rightarrow> (Raised e, st2))
              | Inr True \<Rightarrow>
                  (case is_binstore_link env binstore w filename of
                     Inl e \<Rightarrow> (Raised e, st1)
                   | Inr True \<Rightarrow> add_loop n env binstore rest st1
                   | Inr False \<Rightarrow>
                       if os_path_isdir env w filename then
                         (case walk n env binstore filename (say (Msg_recursing filename) st1) of
                            (Returned, st2) \<Rightarrow> add_loop n env binstore rest st2
                          | (r, st2) \<Rightarrow> (r, st2))
                       else
                         (case add_file env binstore filename st1 of
                            (None, st2) \<Rightarrow> add_loop n env binstore rest st2
                          | (Some e, st2) \<Rightarrow> (Raised e, st2))))))"
| "walk 0 env binstore root st = (OutOfFuel, st)"
| "walk (Suc n) env binstore root st =
     (case os_listdir env (world st) root of
        None \<Rightarrow> (Returned, st)
      | Some names \<Rightarrow>
          (let dirs = filter (\<lambda>name. os_path_isdir env (world st) (os_path_join root [name])) names;
               files = filter (\<lambda>name. \<not> os_path_isdir env (world st) (os_path_join root [name])) names
           in
           case (if dirs \<noteq> []
                 then add n env binstore (map (\<lambda>dn. os_path_join root [dn]) dirs) st
                 else (Returned, st)) of
             (Returned, st1) \<Rightarrow>
               (case (if files \<noteq> []
                      then add n env binstore (map (\<lambda>fn. os_path_join root [fn]) files) st1
                      else (Returned, st1)) of
                  (Returned, st2) \<Rightarrow> walk_dirs n env binstore root dirs st2
                | (r, st2) \<Rightarrow> (r, st2))
           | (r, st1) \<Rightarrow> (r, st1)))"
| "walk_dirs n env binstore root [] st = (Returned, st)"
| "walk_dirs n env binstore root (name # names) st =
     (let new_path = os_path_join root [name] in
      if \<not> os_path_islink env (world st) new_path then
        (case walk n env binstore new_path st of
           (Returned, st1) \<Rightarrow> walk_dirs n env binstore root names st1
         | (r, st1) \<Rightarrow> (r, st1))
      else walk_dirs n env binstore root names st)"
  by pat_completeness auto

termination
  by (relation "measures
        [\<lambda>x. case x of
                Inl (Inl (n, _)) \<Rightarrow> 3 * n + 2
              | Inl (Inr (n, _)) \<Rightarrow> 3 * n + 1
              | Inr (Inl (n, _)) \<Rightarrow> 3 * n
              | Inr (Inr (n, _)) \<Rightarrow> 3 * n + 1,
         \<lambda>x. case x of
                Inl (Inl _) \<Rightarrow> 0
              | Inl (Inr (n, e, b, fs, _)) \<Rightarrow> length fs
              | Inr (Inl _) \<Rightarrow> 0
              | Inr (Inr (n, e, b, r, ds, _)) \<Rightarrow> length ds]") auto

subsection \<open>\<open>GitBin.reset\<close> and \<open>GitBin.checkout_dashdash\<close>\<close>

text \<open>
  \<open>status & git.STATUS_STAGED_MASK == git.STATUS_STAGED\<close>: in Python \<open>&\<close> binds tighter
  than \<open>==\<close>, and \<open>not\<close> looser than both.
\<close>

definition is_staged :: "'w env \<Rightarrow> int \<Rightarrow> bool" where
  "is_staged env status = (and status (STATUS_STAGED_MASK env) = STATUS_STAGED env)"

text \<open>The body of the loop of \<open>reset\<close>, for one file name.\<close>

definition reset_file :: "'w env \<Rightarrow> binstore \<Rightarrow> string \<Rightarrow> 'w state \<Rightarrow> error option \<times> 'w state" where
  "reset_file env binstore filename st =
     (let status = gitrepo_status env (world st) filename in
      if \<not> is_staged env status then (None, say (Msg_hint_checkout filename) st)
      else
        (case invoke (RepoUnstage filename) (gitrepo_unstage env filename) st of
           (Some e, st1) \<Rightarrow> (Some e, st1)
         | (None, st1) \<Rightarrow>
             (let new_status = gitrepo_status env (world st1) filename in
              case has binstore filename of
                Inl e \<Rightarrow> (Some e, st1)
              | Inr h \<Rightarrow>
                  if h \<and> (and new_status (STATUS_UNTRACKED env) \<noteq> 0
                           \<or> and new_status (STATUS_MODIFIED env) \<noteq> 0)
                  then (case get_binstore_filename binstore filename of
                          Inl e \<Rightarrow> (Some e, st1)
                        | Inr src \<Rightarrow> execute env [CopyFileCommand src filename] st1)
                  else (None, st1))))"

fun reset_loop :: "'w env \<Rightarrow> binstore \<Rightarrow> string list \<Rightarrow> 'w state \<Rightarrow> error option \<times> 'w state" where
  "reset_loop env binstore [] st = (None, st)"
| "reset_loop env binstore (filename # rest) st =
     (case reset_file env binstore filename st of
        (None, st') \<Rightarrow> reset_loop env binstore rest st'
      | (Some e, st') \<Rightarrow> (Some e, st'))"

definition reset :: "'w env \<Rightarrow> binstore \<Rightarrow> string list \<Rightarrow> 'w state \<Rightarrow> error option \<times> 'w state" where
  "reset env binstore filenames st =
     (let filenames' = expand_filenames env (world st) filenames in
      reset_loop env binstore filenames' (say (Msg_call ''GitBin.reset'' filenames') st))"

text \<open>\<open>"%s.%s.justincase" % (filename, digest)\<close>, joined to \<open>/tmp\<close>.\<close>

definition justincase_filename :: "string \<Rightarrow> string \<Rightarrow> string" where
  "justincase_filename filename dg =
     os_path_join ''/tmp'' [filename @ ''.'' @ dg @ ''.justincase'']"

text \<open>The body of the loop of \<open>checkout_dashdash\<close>, for one file name.\<close>

definition checkout_file :: "'w env \<Rightarrow> binstore \<Rightarrow> string \<Rightarrow> 'w state \<Rightarrow> error option \<times> 'w state" where
  "checkout_file env binstore filename st =
     (let status = gitrepo_status env (world st) filename in
      if is_staged env status then (None, say (Msg_hint_reset filename) st)
      else if \<not> (and status (STATUS_CHANGED_MASK env) \<noteq> 0) then (None, st)
      else
        (case (if and status (STATUS_TYPECHANGED env) \<noteq> 0
               then (case has binstore filename of
                       Inl e \<Rightarrow> (Some e, st)
                     | Inr h \<Rightarrow>
                         if \<not> h then
                           (case digest binstore filename of
                              Inl e \<Rightarrow> (Some e, st)
                            | Inr dg \<Rightarrow>
                                (case get_binstore_filename binstore filename of
                                   Inl e \<Rightarrow> (Some e, st)
                                 | Inr src \<Rightarrow>
                                     execute env
                                       [CopyFileCommand src (justincase_filename filename dg)] st))
                         else (None, st))
               else (None, st)) of
           (Some e, st1) \<Rightarrow> (Some e, st1)
         | (None, st1) \<Rightarrow> invoke (RepoRestore filename) (gitrepo_restore env filename) st1))"

fun checkout_loop :: "'w env \<Rightarrow> binstore \<Rightarrow> string list \<Rightarrow> 'w state \<Rightarrow> error option \<times> 'w state" where
  "checkout_loop env binstore [] st = (None, st)"
| "checkout_loop env binstore (filename # rest) st =
     (case checkout_file env binstore filename st of
        (None, st') \<Rightarrow> checkout_loop env binstore rest st'
      | (Some e, st') \<Rightarrow> (Some e, st'))"

definition checkout_dashdash :: "'w env \<Rightarrow> binstore \<Rightarrow> string list \<Rightarrow> 'w state \<Rightarrow> error option \<times> 'w state" where
  "checkout_dashdash env binstore filenames st =
     (let filenames' = expand_filenames env (world st) filenames in
      checkout_loop env binstore filenames'
        (say (Msg_call ''GitBin.checkout_dashdash'' filenames') st))"

subsection \<open>Dispatch, the parser and \<open>main\<close>\<close>

text \<open>
  \<open>hasattr(self, name)\<close> on a \<open>GitBin\<close> object: the two instance attributes, the four
  methods of the class, and what every instance of a Python 2 new-style class has.
\<close>

definition GitBin_attributes :: "string list" where
  "GitBin_attributes =
     [''gitrepo'', ''binstore'',
      ''__init__'', ''dispatch_command'', ''add'', ''reset'', ''checkout_dashdash'',
      ''__class__'', ''__delattr__'', ''__dict__'', ''__doc__'', ''__format__'',
      ''__getattribute__'', ''__hash__'', ''__module__'', ''__new__'', ''__reduce__'',
      ''__reduce_ex__'', ''__repr__'', ''__setattr__'', ''__sizeof__'', ''__str__'',
      ''__subclasshook__'', ''__weakref__'']"

text \<open>
  \<open>GitBin.dispatch_command\<close>, with \<open>args.files\<close> as \<open>files\<close>. An attribute that is not one
  of the three handlers is called with the one argument all the same: none of them accepts
  it (a \<open>TypeError\<close>), except \<open>__subclasshook__\<close>, which ignores its arguments.
\<close>

definition dispatch_command ::
  "nat \<Rightarrow> 'w env \<Rightarrow> binstore \<Rightarrow> string \<Rightarrow> string list \<Rightarrow> 'w state \<Rightarrow> outcome \<times> 'w state" where
  "dispatch_command n env binstore name files st =
     (if name \<notin> set GitBin_attributes then (Raised (UnknownCommandException name), st)
      else if name = ''add'' then add n env binstore files st
      else if name = ''reset'' then
        (case reset env binstore files st of (r, st') \<Rightarrow> (outcome_of r, st'))
      else if name = ''checkout_dashdash'' then
        (case checkout_dashdash env binstore files st of (r, st') \<Rightarrow> (outcome_of r, st'))
      else if name = ''__subclasshook__'' then (Returned, st)
      else (Raised (TypeError name), st))"

text \<open>The \<open>choices\<close> of the positional argument \<open>command\<close> in \<open>build_options_parser\<close>.\<close>

definition command_choices :: "string list" where
  "command_choices = [''add'', ''edit'', ''reset'', ''checkout_dashdash'']"



subsection \<open>An example repository\<close>

text \<open>
  A small concrete world and environment, on which the theorems below are instantiated:
  a repository \<open>/repo\<close> named \<open>repo\<close>, its store root \<open>/bins/repo\<close> and the alias
  \<open>/repo/.git/binstore\<close>. The world lists the symbolic links with their targets, the
  regular files, the digest of each file's bytes, the digests of the objects in the store,
  the files whose content is sniffed as binary, the status of each path, and the
  configuration.
\<close>

record example_world =
  links :: "(string \<times> string) list"
  regular :: "string list"
  digests :: "(string \<times> string) list"
  stored :: "string list"
  binary :: "string list"
  statuses :: "(string \<times> int) list"
  config :: "((string \<times> string) \<times> string) list"

text \<open>
  The status bits are example values (the \<open>git\<close> module is not part of the file):
  untracked 1, modified 2, type-changed 4, staged 8, partly staged 16. \<open>unstage\<close> leaves
  a path that was staged untracked; commands succeed.
\<close>

definition example_env :: "example_world env" where
  "example_env =
     \<lparr>os_path_exists = (\<lambda>w f. f \<in> set (regular w) \<or> f \<in> set (map fst (links w))),
      os_path_islink = (\<lambda>w f. f \<in> set (map fst (links w))),
      os_path_isdir = (\<lambda>w f. False),
      os_readlink = (\<lambda>w f. case map_of (links w) f of Some t \<Rightarrow> t | None \<Rightarrow> []),
      os_listdir = (\<lambda>w f. None),
      md5_file = (\<lambda>w f. case map_of (digests w) f of
                            Some d \<Rightarrow> Inr d
                          | None \<Rightarrow> Inl (CollaboratorError ''IOError'')),
      expand_filenames = (\<lambda>w fs. fs),
      is_file_binary = (\<lambda>w f. Inr (f \<in> set (binary w))),
      gitrepo_path = ''/repo'',
      gitrepo_reponame = ''repo'',
      gitrepo_status = (\<lambda>w f. case map_of (statuses w) f of Some s \<Rightarrow> s | None \<Rightarrow> 0),
      gitrepo_add = (\<lambda>f w. (None, w\<lparr>statuses := (f, 8) # statuses w\<rparr>)),
      gitrepo_unstage = (\<lambda>f w. (None, w\<lparr>statuses := (f, 1) # statuses w\<rparr>)),
      gitrepo_restore = (\<lambda>f w. (None, w\<lparr>statuses := (f, 0) # statuses w\<rparr>)),
      config_get = (\<lambda>w s k. map_of (config w) (s, k)),
      config_set = (\<lambda>s k v w. (None, w\<lparr>config := ((s, k), v) # config w\<rparr>)),
      STATUS_STAGED_MASK = 24,
      STATUS_STAGED = 8,
      STATUS_CHANGED_MASK = 7,
      STATUS_UNTRACKED = 1,
      STATUS_MODIFIED = 2,
      STATUS_TYPECHANGED = 4,
      run_command = (\<lambda>c w. (None, w))\<rparr>"

definition example_binstore :: binstore where
  "example_binstore = \<lparr>localpath = ''/repo/.git/binstore'', path = ''/bins/repo''\<rparr>"

text \<open>
  The files of the example: \<open>a.bin\<close> is a link to a stored object with binary content;
  \<open>notes.dat\<close> is a link to a stored object whose content is not sniffed as binary;
  \<open>hosts\<close> is an ordinary link; \<open>fake\<close> points under the store root at no stored object;
  \<open>alias.bin\<close> points at a stored object through the alias, as the links do that
  \<open>add_file\<close> makes; \<open>big.iso\<close> is a binary file not yet added; \<open>new.bin\<close> is
  staged; \<open>/repo/edited.bin\<close> and \<open>edited.bin\<close> are
  real files that replaced a link (type-changed), with content the store does not have.
\<close>

definition example_world :: example_world where
  "example_world =
     \<lparr>links = [(''/repo/a.bin'', ''/bins/repo/0cc175b9c0f1b6a831c399e269772661''),
               (''/repo/notes.dat'', ''/bins/repo/92eb5ffee6ae2fec3ad71c777531578f''),
               (''/repo/hosts'', ''/etc/hosts''),
               (''/repo/fake'', ''/bins/repo/4a8a08f09d37b73795649038408b5f33''),
               (''/repo/alias.bin'', ''/repo/.git/binstore/0cc175b9c0f1b6a831c399e269772661''),
               (''/repo/new.bin'', ''/repo/.git/binstore/8277e0910d750195b448797616e091ad'')],
      regular = [''/etc/hosts'', ''/repo/big.iso'', ''/repo/edited.bin'', ''edited.bin''],
      digests = [(''/repo/a.bin'', ''0cc175b9c0f1b6a831c399e269772661''),
                 (''/repo/notes.dat'', ''92eb5ffee6ae2fec3ad71c777531578f''),
                 (''/repo/alias.bin'', ''0cc175b9c0f1b6a831c399e269772661''),
                 (''/repo/big.iso'', ''e1671797c52e15f763380b45e841ec32''),
                 (''/repo/new.bin'', ''8277e0910d750195b448797616e091ad''),
                 (''/repo/edited.bin'', ''8fa14cdd754f91cc6554c9e71929cce7''),
                 (''edited.bin'', ''8fa14cdd754f91cc6554c9e71929cce7'')],
      stored = [''0cc175b9c0f1b6a831c399e269772661'', ''92eb5ffee6ae2fec3ad71c777531578f'',
                ''8277e0910d750195b448797616e091ad''],
      binary = [''/repo/a.bin'', ''/repo/big.iso'', ''/repo/alias.bin'', ''/repo/new.bin'',
                ''/repo/edited.bin'', ''edited.bin''],
      statuses = [(''/repo/new.bin'', 8), (''/repo/edited.bin'', 4), (''edited.bin'', 4)],
      config = [((''git-bin'', ''binstorebase''), ''/bins''),
                ((''binstore'', ''path''), ''/bins/repo'')]\<rparr>"

text \<open>The same world before the store was initialized: no \<open>binstore.path\<close> yet.\<close>

definition fresh_world :: example_world where
  "fresh_world = example_world\<lparr>config := [((''git-bin'', ''binstorebase''), ''/bins'')]\<rparr>"

text \<open>A world whose configuration has neither key.\<close>

definition unconfigured_world :: example_world where
  "unconfigured_world = example_world\<lparr>config := []\<rparr>"

definition start :: "'w \<Rightarrow> 'w state" where
  "start w = \<lparr>world = w, log = []\<rparr>"

text \<open>The example environment with a \<open>SafeMoveFileCommand\<close> that fails.\<close>

definition failing_move_env :: "example_world env" where
  "failing_move_env =
     example_env\<lparr>run_command :=
       (\<lambda>c w. case c of
                 SafeMoveFileCommand src dst \<Rightarrow> (Some (CollaboratorError ''OSError''), w)
               | _ \<Rightarrow> (None, w))\<rparr>"

section \<open>Properties\<close>

subsection \<open>Auxiliary facts\<close>

lemma startswith_iff: "startswith s p \<longleftrightarrow> (\<exists>r. s = p @ r)"
  unfolding startswith_def
  by (metis append_eq_conv_conj append_take_drop_id)

lemma os_path_join2_nonempty: "a \<noteq> [] \<Longrightarrow> os_path_join2 a b \<noteq> []"
  by (auto simp: os_path_join2_def startswith_def)

lemma invoke_log: "invoke ev f st = (r, st') \<Longrightarrow> log st' = log st @ [ev]"
  by (auto simp: invoke_def split: prod.splits)

text \<open>What \<open>execute\<close> adds to the log is a prefix of the commands, all of them if it returns.\<close>

lemma execute_log:
  "execute env cs st = (r, st') \<Longrightarrow>
     \<exists>k\<le>length cs. log st' = log st @ map Exec (take k cs) \<and> (r = None \<longrightarrow> k = length cs)"
proof (induction cs arbitrary: st)
  case Nil
  then show ?case by simp
next
  case (Cons c cs)
  obtain r1 st1 where i: "invoke (Exec c) (run_command env c) st = (r1, st1)"
    by (cases "invoke (Exec c) (run_command env c) st")
  have l1: "log st1 = log st @ [Exec c]" using i by (rule invoke_log)
  show ?case
  proof (cases r1)
    case None
    with Cons.prems i have "execute env cs st1 = (r, st')" by simp
    from Cons.IH[OF this] obtain k where
      k: "k \<le> length cs" "log st' = log st1 @ map Exec (take k cs)" "r = None \<longrightarrow> k = length cs"
      by blast
    show ?thesis
      by (rule exI[of _ "Suc k"]) (use k l1 in simp)
  next
    case (Some e)
    with Cons.prems i have "r = Some e" "st' = st1" by simp_all
    then show ?thesis
      by (intro exI[of _ "Suc 0"]) (use l1 in simp)
  qed
qed

lemma read_only_mode:
  "and (or S_IRUSR (or S_IRGRP S_IROTH)) (or S_IWUSR (or S_IWGRP S_IWOTH)) = 0"
  by (simp add: S_IRUSR_def S_IRGRP_def S_IROTH_def S_IWUSR_def S_IWGRP_def S_IWOTH_def)

lemmas example_simps = example_env_def example_world_def example_binstore_def start_def
  os_path_join_def os_path_join2_def startswith_def endswith_def

subsection \<open>Inserting a file into the store\<close>

text \<open>
  C7, as the claim states it, fails on the name of the target. The claim has \<open>add_file\<close>
  move the file to \<open>storeRoot/Digest\<close>. In the example the store root is \<open>/bins/repo\<close>,
  and the four commands that \<open>add_file\<close> executes for \<open>/repo/big.iso\<close> are not the four
  commands on \<open>/bins/repo/<digest>\<close>: the target is built from \<open>self.localpath\<close>, the
  alias \<open>/repo/.git/binstore\<close>.
\<close>

theorem add_file_target_counterexample:
  "log (snd (add_file example_env example_binstore ''/repo/big.iso'' (start example_world))) \<noteq>
     log (start example_world) @ map Exec
       [SafeMoveFileCommand ''/repo/big.iso''
          (os_path_join (path example_binstore) [''e1671797c52e15f763380b45e841ec32'']),
        LinkToFileCommand ''/repo/big.iso''
          (os_path_join (path example_binstore) [''e1671797c52e15f763380b45e841ec32'']),
        ChmodCommand (or S_IRUSR (or S_IRGRP S_IROTH))
          (os_path_join (path example_binstore) [''e1671797c52e15f763380b45e841ec32'']),
        GitAddCommand ''/repo/big.iso'']"
  by (simp add: example_simps add_file_def add_file_commands_def invoke_def Let_def)

text \<open>
  C7, amended: \<open>add_file\<close> computes the digest of the file, builds the target name
  \<open>localpath/Digest\<close> from the alias of the store under the repository's \<open>.git\<close>
  directory, and executes, in this order, each command in the world the one before it
  left, and stopping at the first command that fails: move the file to the target, link
  the original path to the target, change the mode of the target to read for owner, group
  and other, stage the original path. The error of the failing command is the error of
  \<open>add_file\<close>, and nothing is undone. When all four have run \<open>add_file\<close> returns, and
  the mode given to the target has no write bit for any principal.
\<close>

theorem add_file_sequence:
  assumes "md5_file env (world st) filename = Inr dg"
    and "run_command env
           (SafeMoveFileCommand filename (os_path_join (localpath self) [dg])) (world st)
         = (r1, w1)"
    and "run_command env
           (LinkToFileCommand filename (os_path_join (localpath self) [dg])) w1 = (r2, w2)"
    and "run_command env
           (ChmodCommand (or S_IRUSR (or S_IRGRP S_IROTH)) (os_path_join (localpath self) [dg]))
           w2 = (r3, w3)"
    and "run_command env (GitAddCommand filename) w3 = (r4, w4)"
  shows "add_file env self filename st =
           (if r1 \<noteq> None then
              (r1, \<lparr>world = w1,
                    log = log st @
                      [Exec (SafeMoveFileCommand filename (os_path_join (localpath self) [dg]))]\<rparr>)
            else if r2 \<noteq> None then
              (r2, \<lparr>world = w2,
                    log = log st @
                      [Exec (SafeMoveFileCommand filename (os_path_join (localpath self) [dg])),
                       Exec (LinkToFileCommand filename (os_path_join (localpath self) [dg]))]\<rparr>)
            else if r3 \<noteq> None then
              (r3, \<lparr>world = w3,
                    log = log st @
                      [Exec (SafeMoveFileCommand filename (os_path_join (localpath self) [dg])),
                       Exec (LinkToFileCommand filename (os_path_join (localpath self) [dg])),
                       Exec (ChmodCommand (or S_IRUSR (or S_IRGRP S_IROTH))
                               (os_path_join (localpath self) [dg]))]\<rparr>)
            else
              (r4, \<lparr>world = w4,
                    log = log st @
                      [Exec (SafeMoveFileCommand filename (os_path_join (localpath self) [dg])),
                       Exec (LinkToFileCommand filename (os_path_join (localpath self) [dg])),
                       Exec (ChmodCommand (or S_IRUSR (or S_IRGRP S_IROTH))
                               (os_path_join (localpath self) [dg])),
                       Exec (GitAddCommand filename)]\<rparr>))
         \<and> and (or S_IRUSR (or S_IRGRP S_IROTH)) (or S_IWUSR (or S_IWGRP S_IWOTH)) = 0"
proof -
  have "add_file env self filename st = execute env (add_file_commands self filename dg) st"
    using assms(1) by (simp add: add_file_def)
  also have "\<dots> =
           (if r1 \<noteq> None then
              (r1, \<lparr>world = w1,
                    log = log st @
                      [Exec (SafeMoveFileCommand filename (os_path_join (localpath self) [dg]))]\<rparr>)
            else if r2 \<noteq> None then
              (r2, \<lparr>world = w2,
                    log = log st @
                      [Exec (SafeMoveFileCommand filename (os_path_join (localpath self) [dg])),
                       Exec (LinkToFileCommand filename (os_path_join (localpath self) [dg]))]\<rparr>)
            else if r3 \<noteq> None then
              (r3, \<lparr>world = w3,
                    log = log st @
                      [Exec (SafeMoveFileCommand filename (os_path_join (localpath self) [dg])),
                       Exec (LinkToFileCommand filename (os_path_join (localpath self) [dg])),
                       Exec (ChmodCommand (or S_IRUSR (or S_IRGRP S_IROTH))
                               (os_path_join (localpath self) [dg]))]\<rparr>)
            else
              (r4, \<lparr>world = w4,
                    log = log st @
                      [Exec (SafeMoveFileCommand filename (os_path_join (localpath self) [dg])),
                       Exec (LinkToFileCommand filename (os_path_join (localpath self) [dg])),
                       Exec (ChmodCommand (or S_IRUSR (or S_IRGRP S_IROTH))
                               (os_path_join (localpath self) [dg])),
                       Exec (GitAddCommand filename)]\<rparr>))"
    using assms(2-5)
    by (cases r1; cases r2; cases r3; cases r4)
      (simp_all add: add_file_commands_def invoke_def Let_def)
  finally show ?thesis
    by (simp add: read_only_mode)
qed

theorem add_file_sequence_witness:
  "md5_file example_env (world (start example_world)) ''/repo/big.iso''
     = Inr ''e1671797c52e15f763380b45e841ec32''
   \<and> add_file example_env example_binstore ''/repo/big.iso'' (start example_world) =
       (None,
        \<lparr>world = example_world,
         log = [Exec (SafeMoveFileCommand ''/repo/big.iso''
                        ''/repo/.git/binstore/e1671797c52e15f763380b45e841ec32''),
                Exec (LinkToFileCommand ''/repo/big.iso''
                        ''/repo/.git/binstore/e1671797c52e15f763380b45e841ec32''),
                Exec (ChmodCommand 292 ''/repo/.git/binstore/e1671797c52e15f763380b45e841ec32''),
                Exec (GitAddCommand ''/repo/big.iso'')]\<rparr>)
   \<and> md5_file failing_move_env (world (start example_world)) ''/repo/big.iso''
     = Inr ''e1671797c52e15f763380b45e841ec32''
   \<and> add_file failing_move_env example_binstore ''/repo/big.iso'' (start example_world) =
       (Some (CollaboratorError ''OSError''),
        \<lparr>world = example_world,
         log = [Exec (SafeMoveFileCommand ''/repo/big.iso''
                        ''/repo/.git/binstore/e1671797c52e15f763380b45e841ec32'')]\<rparr>)"
  using add_file_sequence [where env = example_env and st = "start example_world"
      and filename = "''/repo/big.iso''" and dg = "''e1671797c52e15f763380b45e841ec32''"
      and self = example_binstore and ?r1.0 = None and ?r2.0 = None and ?r3.0 = None
      and ?r4.0 = None and ?w1.0 = example_world and ?w2.0 = example_world
      and ?w3.0 = example_world and ?w4.0 = example_world]
    add_file_sequence [where env = failing_move_env and st = "start example_world"
      and filename = "''/repo/big.iso''" and dg = "''e1671797c52e15f763380b45e841ec32''"
      and self = example_binstore and ?r1.0 = "Some (CollaboratorError ''OSError'')"
      and ?r2.0 = None and ?r3.0 = None and ?r4.0 = None and ?w1.0 = example_world
      and ?w2.0 = example_world and ?w3.0 = example_world and ?w4.0 = example_world]
  by (simp add: example_simps failing_move_env_def S_IRUSR_def S_IRGRP_def S_IROTH_def)

subsection \<open>Recognising a link into the store\<close>

text \<open>
  What \<open>is_binstore_link\<close> does: it returns false for a path that is no link and for a link
  whose target does not start with the store root; for a link whose target starts with the
  store root it raises, because the membership test \<open>has_file\<close> is not there. It returns
  true for no path.
\<close>

lemma is_binstore_link_cases:
  "is_binstore_link env self w filename =
     (if os_path_islink env w filename \<and> startswith (os_readlink env w filename) (path self)
      then Inl (AttributeError ''has_file'') else Inr False)"
  by (simp add: is_binstore_link_def has_file_def)

lemma is_binstore_link_never_true: "is_binstore_link env self w filename \<noteq> Inr True"
  by (simp add: is_binstore_link_cases)

text \<open>
  C8: \<open>/repo/a.bin\<close> is a symbolic link, its target starts with the store root
  \<open>/bins/repo\<close>, and the target is the object of a digest that is in the store: the three
  conditions of the claim hold, and \<open>is_binstore_link\<close> does not return true, it raises
  \<open>AttributeError\<close>. \<open>/repo/fake\<close> points under the store root at a digest that is not
  in the store: the claim has \<open>is_binstore_link\<close> return false, and it raises
  \<open>AttributeError\<close>. Only for a link that points outside the store root, such as
  \<open>/repo/hosts\<close>, does it return false as the claim says.
\<close>

theorem is_binstore_link_raises:
  "os_path_islink example_env example_world ''/repo/a.bin''
   \<and> os_readlink example_env example_world ''/repo/a.bin''
       = os_path_join (path example_binstore) [''0cc175b9c0f1b6a831c399e269772661'']
   \<and> ''0cc175b9c0f1b6a831c399e269772661'' \<in> set (stored example_world)
   \<and> is_binstore_link example_env example_binstore example_world ''/repo/a.bin''
       = Inl (AttributeError ''has_file'')
   \<and> os_path_islink example_env example_world ''/repo/fake''
   \<and> os_readlink example_env example_world ''/repo/fake''
       = os_path_join (path example_binstore) [''4a8a08f09d37b73795649038408b5f33'']
   \<and> ''4a8a08f09d37b73795649038408b5f33'' \<notin> set (stored example_world)
   \<and> is_binstore_link example_env example_binstore example_world ''/repo/fake''
       = Inl (AttributeError ''has_file'')
   \<and> os_path_islink example_env example_world ''/repo/hosts''
   \<and> is_binstore_link example_env example_binstore example_world ''/repo/hosts'' = Inr False"
  by (simp add: example_simps is_binstore_link_def has_file_def)

subsection \<open>Initializing the store\<close>

lemma init_unconfigured:
  "config_get env (world st) ''git-bin'' ''binstorebase'' = None
   \<or> config_get env (world st) ''git-bin'' ''binstorebase'' = Some []
   \<Longrightarrow> init env self st = (Inl (PyException no_binstorebase), st)"
  by (auto simp: init_def)

lemma constructor_configured:
  "config_get env (world st) ''binstore'' ''path'' = Some p \<Longrightarrow> p \<noteq> [] \<Longrightarrow>
   FilesystemBinstore env st =
     (Inr \<lparr>localpath = os_path_join (gitrepo_path env) [''.git'', ''binstore''], path = p\<rparr>, st)"
  by (simp add: FilesystemBinstore_def Let_def)

lemma init_path_nonempty:
  "init env self st = (Inr b, st') \<Longrightarrow> path b \<noteq> [] \<and> localpath b = localpath self"
  by (auto simp: init_def Let_def os_path_join_def os_path_join2_nonempty
      split: option.splits if_splits prod.splits)

lemma constructor_result:
  assumes "FilesystemBinstore env st = (Inr b, st')"
  shows "path b \<noteq> [] \<and> localpath b = os_path_join (gitrepo_path env) [''.git'', ''binstore'']"
proof (cases "config_get env (world st) ''binstore'' ''path''")
  case None
  with assms have "init env \<lparr>localpath = os_path_join (gitrepo_path env) [''.git'', ''binstore''],
      path = []\<rparr> st = (Inr b, st')"
    by (simp add: FilesystemBinstore_def Let_def)
  from init_path_nonempty[OF this] show ?thesis by simp
next
  case (Some p)
  show ?thesis
  proof (cases "p = []")
    case True
    with Some assms have "init env \<lparr>localpath = os_path_join (gitrepo_path env) [''.git'', ''binstore''],
      path = []\<rparr> st = (Inr b, st')"
      by (simp add: FilesystemBinstore_def Let_def)
    from init_path_nonempty[OF this] show ?thesis by simp
  next
    case False
    with Some assms show ?thesis
      by (auto simp: FilesystemBinstore_def Let_def)
  qed
qed

text \<open>
  C9: \<open>init\<close> raises the exception about the missing \<open>git-bin.binstorebase\<close> when the
  configuration has no base directory (none, or the empty string), and it has done nothing
  by then. Constructing the store when the configuration holds a store path
  \<open>binstore.path\<close> skips \<open>init\<close>: no command is executed, nothing is written to the
  configuration, the state is the one before. So the initialization is idempotent: once a
  construction has succeeded and the configuration returns the path it recorded,
  constructing the store again changes nothing and gives the same object.
\<close>

theorem store_initialization:
  "(config_get env (world st) ''git-bin'' ''binstorebase'' = None
      \<or> config_get env (world st) ''git-bin'' ''binstorebase'' = Some []
    \<longrightarrow> init env self st = (Inl (PyException no_binstorebase), st))
   \<and> (config_get env (world st) ''binstore'' ''path'' = Some p \<and> p \<noteq> []
    \<longrightarrow> FilesystemBinstore env st =
          (Inr \<lparr>localpath = os_path_join (gitrepo_path env) [''.git'', ''binstore''],
                path = p\<rparr>, st))
   \<and> (FilesystemBinstore env st = (Inr b, st1)
       \<and> config_get env (world st1) ''binstore'' ''path'' = Some (path b)
    \<longrightarrow> FilesystemBinstore env st1 = (Inr b, st1))"
proof (intro conjI impI)
  assume "config_get env (world st) ''git-bin'' ''binstorebase'' = None
      \<or> config_get env (world st) ''git-bin'' ''binstorebase'' = Some []"
  then show "init env self st = (Inl (PyException no_binstorebase), st)"
    by (rule init_unconfigured)
next
  assume "config_get env (world st) ''binstore'' ''path'' = Some p \<and> p \<noteq> []"
  then show "FilesystemBinstore env st =
          (Inr \<lparr>localpath = os_path_join (gitrepo_path env) [''.git'', ''binstore''],
                path = p\<rparr>, st)"
    by (simp add: constructor_configured)
next
  assume a: "FilesystemBinstore env st = (Inr b, st1)
       \<and> config_get env (world st1) ''binstore'' ''path'' = Some (path b)"
  then have "path b \<noteq> []"
    and "localpath b = os_path_join (gitrepo_path env) [''.git'', ''binstore'']"
    using constructor_result by blast+
  with a show "FilesystemBinstore env st1 = (Inr b, st1)"
    by (simp add: constructor_configured)
qed

theorem store_initialization_witness:
  "config_get example_env (world (start unconfigured_world)) ''git-bin'' ''binstorebase'' = None
   \<and> init example_env example_binstore (start unconfigured_world)
       = (Inl (PyException no_binstorebase), start unconfigured_world)
   \<and> config_get example_env (world (start example_world)) ''binstore'' ''path''
       = Some ''/bins/repo''
   \<and> FilesystemBinstore example_env (start example_world)
       = (Inr example_binstore, start example_world)
   \<and> fst (FilesystemBinstore example_env (start fresh_world)) = Inr example_binstore
   \<and> log (snd (FilesystemBinstore example_env (start fresh_world))) =
       [Exec (MakeDirectoryCommand ''/bins/repo''),
        Exec (LinkToFileCommand ''/repo/.git/binstore'' ''/bins/repo''),
        ConfigSet ''binstore'' ''path'' ''/bins/repo'']
   \<and> FilesystemBinstore example_env (snd (FilesystemBinstore example_env (start fresh_world)))
       = (Inr example_binstore, snd (FilesystemBinstore example_env (start fresh_world)))"
  using store_initialization [where env = example_env and st = "start unconfigured_world"
      and self = example_binstore]
    store_initialization [where env = example_env and st = "start example_world"
      and p = "''/bins/repo''"]
    store_initialization [where env = example_env and st = "start fresh_world"
      and b = example_binstore
      and ?st1.0 = "snd (FilesystemBinstore example_env (start fresh_world))"]
  by (simp add: example_simps unconfigured_world_def fresh_world_def FilesystemBinstore_def
      init_def invoke_def Let_def)

subsection \<open>Dispatching a command\<close>

text \<open>
  C10: the parser accepts \<open>edit\<close> as a command, the \<open>GitBin\<close> object has no attribute of
  that name, and dispatching \<open>edit\<close> raises \<open>UnknownCommandException\<close>.
\<close>

theorem dispatch_edit_unknown:
  "''edit'' \<in> set command_choices
   \<and> ''edit'' \<notin> set GitBin_attributes
   \<and> dispatch_command n env binstore ''edit'' files st
       = (Raised (UnknownCommandException ''edit''), st)"
  by (simp add: command_choices_def GitBin_attributes_def dispatch_command_def)

theorem dispatch_edit_unknown_witness:
  "''edit'' \<in> set command_choices
   \<and> ''edit'' \<notin> set GitBin_attributes
   \<and> dispatch_command 0 example_env example_binstore ''edit'' [''/repo/big.iso'']
        (start example_world)
       = (Raised (UnknownCommandException ''edit''), start example_world)"
  using dispatch_edit_unknown [of 0 example_env example_binstore "[''/repo/big.iso'']"
      "start example_world"]
  by simp





subsection \<open>Unstaging and restoring\<close>

lemma say_world [simp]: "world (say m st) = world st"
  by (simp add: say_def)

lemma say_mutations [simp]: "mutations (log (say m st)) = mutations (log st)"
  by (simp add: say_def mutations_def)

lemma reset_file_not_staged:
  "\<not> is_staged env (gitrepo_status env (world st) f) \<Longrightarrow>
   reset_file env b f st = (None, say (Msg_hint_checkout f) st)"
  by (simp add: reset_file_def Let_def)

lemma checkout_file_staged:
  "is_staged env (gitrepo_status env (world st) f) \<Longrightarrow>
   checkout_file env b f st = (None, say (Msg_hint_reset f) st)"
  by (simp add: checkout_file_def Let_def)

lemma reset_loop_none_staged:
  "\<forall>f\<in>set fs. \<not> is_staged env (gitrepo_status env (world st) f) \<Longrightarrow>
   \<exists>st'. reset_loop env b fs st = (None, st') \<and> world st' = world st
         \<and> mutations (log st') = mutations (log st)"
proof (induction fs arbitrary: st)
  case Nil
  then show ?case by simp
next
  case (Cons f fs)
  have step: "reset_file env b f st = (None, say (Msg_hint_checkout f) st)"
    using Cons.prems by (simp add: reset_file_not_staged)
  have "\<forall>g\<in>set fs. \<not> is_staged env (gitrepo_status env (world (say (Msg_hint_checkout f) st)) g)"
    using Cons.prems by simp
  from Cons.IH[OF this] show ?case
    using step by simp
qed

lemma checkout_loop_all_staged:
  "\<forall>f\<in>set fs. is_staged env (gitrepo_status env (world st) f) \<Longrightarrow>
   \<exists>st'. checkout_loop env b fs st = (None, st') \<and> world st' = world st
         \<and> mutations (log st') = mutations (log st)"
proof (induction fs arbitrary: st)
  case Nil
  then show ?case by simp
next
  case (Cons f fs)
  have step: "checkout_file env b f st = (None, say (Msg_hint_reset f) st)"
    using Cons.prems by (simp add: checkout_file_staged)
  have "\<forall>g\<in>set fs. is_staged env (gitrepo_status env (world (say (Msg_hint_reset f) st)) g)"
    using Cons.prems by simp
  from Cons.IH[OF this] show ?case
    using step by simp
qed

lemma reset_none_staged:
  assumes "\<forall>f\<in>set (expand_filenames env (world st) fs).
             \<not> is_staged env (gitrepo_status env (world st) f)"
  shows "\<exists>st'. reset env b fs st = (None, st') \<and> world st' = world st
         \<and> mutations (log st') = mutations (log st)"
proof -
  let ?st0 = "say (Msg_call ''GitBin.reset'' (expand_filenames env (world st) fs)) st"
  have "\<forall>f\<in>set (expand_filenames env (world st) fs).
           \<not> is_staged env (gitrepo_status env (world ?st0) f)"
    using assms by simp
  from reset_loop_none_staged[OF this, of b] show ?thesis
    by (simp add: reset_def Let_def)
qed

lemma checkout_all_staged:
  assumes "\<forall>f\<in>set (expand_filenames env (world st) fs).
             is_staged env (gitrepo_status env (world st) f)"
  shows "\<exists>st'. checkout_dashdash env b fs st = (None, st') \<and> world st' = world st
         \<and> mutations (log st') = mutations (log st)"
proof -
  let ?st0 = "say (Msg_call ''GitBin.checkout_dashdash'' (expand_filenames env (world st) fs)) st"
  have "\<forall>f\<in>set (expand_filenames env (world st) fs).
           is_staged env (gitrepo_status env (world ?st0) f)"
    using assms by simp
  from checkout_loop_all_staged[OF this, of b] show ?thesis
    by (simp add: checkout_dashdash_def Let_def)
qed

text \<open>
  C2: a path whose status, queried when the loop reaches it, is not staged is left alone
  by \<open>reset\<close>: it prints the hint and does nothing else (no unstage, no copy). A path
  whose status is fully staged is left alone by \<open>checkout_dashdash\<close>: it prints the
  hint and does nothing else (no backup, no restore). So a batch in which no path is staged
  goes through \<open>reset\<close>, and a batch in which every path is staged goes through
  \<open>checkout_dashdash\<close>, with the world unchanged and no mutating call. The two
  conditions exclude each other: in any state, at most one of the two commands does
  anything to a given path.
\<close>

theorem reset_checkout_disjoint:
  "(\<not> is_staged env (gitrepo_status env (world st) f)
      \<longrightarrow> reset_file env b f st = (None, say (Msg_hint_checkout f) st))
   \<and> (is_staged env (gitrepo_status env (world st) f)
      \<longrightarrow> checkout_file env b f st = (None, say (Msg_hint_reset f) st))
   \<and> ((\<forall>g\<in>set (expand_filenames env (world st) fs).
          \<not> is_staged env (gitrepo_status env (world st) g))
      \<longrightarrow> (\<exists>st'. reset env b fs st = (None, st') \<and> world st' = world st
                 \<and> mutations (log st') = mutations (log st)))
   \<and> ((\<forall>g\<in>set (expand_filenames env (world st) fs).
          is_staged env (gitrepo_status env (world st) g))
      \<longrightarrow> (\<exists>st'. checkout_dashdash env b fs st = (None, st') \<and> world st' = world st
                 \<and> mutations (log st') = mutations (log st)))
   \<and> (world (snd (reset_file env b f st)) = world st
        \<and> mutations (log (snd (reset_file env b f st))) = mutations (log st)
      \<or> world (snd (checkout_file env b f st)) = world st
        \<and> mutations (log (snd (checkout_file env b f st))) = mutations (log st))"
proof (intro conjI impI)
  show "world (snd (reset_file env b f st)) = world st
        \<and> mutations (log (snd (reset_file env b f st))) = mutations (log st)
      \<or> world (snd (checkout_file env b f st)) = world st
        \<and> mutations (log (snd (checkout_file env b f st))) = mutations (log st)"
  proof (cases "is_staged env (gitrepo_status env (world st) f)")
    case True
    then show ?thesis by (simp add: checkout_file_staged)
  next
    case False
    then show ?thesis by (simp add: reset_file_not_staged)
  qed
qed (simp_all add: reset_file_not_staged checkout_file_staged reset_none_staged
      checkout_all_staged)

theorem reset_checkout_disjoint_witness:
  "\<not> is_staged example_env
        (gitrepo_status example_env (world (start example_world)) ''/repo/edited.bin'')
   \<and> reset_file example_env example_binstore ''/repo/edited.bin'' (start example_world)
       = (None, \<lparr>world = example_world, log = [Print (Msg_hint_checkout ''/repo/edited.bin'')]\<rparr>)
   \<and> is_staged example_env
        (gitrepo_status example_env (world (start example_world)) ''/repo/new.bin'')
   \<and> checkout_file example_env example_binstore ''/repo/new.bin'' (start example_world)
       = (None, \<lparr>world = example_world, log = [Print (Msg_hint_reset ''/repo/new.bin'')]\<rparr>)
   \<and> reset example_env example_binstore [''/repo/edited.bin'', ''/repo/a.bin'']
        (start example_world)
       = (None, \<lparr>world = example_world,
                 log = [Print (Msg_call ''GitBin.reset'' [''/repo/edited.bin'', ''/repo/a.bin'']),
                        Print (Msg_hint_checkout ''/repo/edited.bin''),
                        Print (Msg_hint_checkout ''/repo/a.bin'')]\<rparr>)
   \<and> checkout_dashdash example_env example_binstore [''/repo/new.bin''] (start example_world)
       = (None, \<lparr>world = example_world,
                 log = [Print (Msg_call ''GitBin.checkout_dashdash'' [''/repo/new.bin'']),
                        Print (Msg_hint_reset ''/repo/new.bin'')]\<rparr>)"
  using reset_checkout_disjoint [where env = example_env and st = "start example_world"
      and b = example_binstore and f = "''/repo/edited.bin''"
      and fs = "[''/repo/edited.bin'', ''/repo/a.bin'']"]
    reset_checkout_disjoint [where env = example_env and st = "start example_world"
      and b = example_binstore and f = "''/repo/new.bin''" and fs = "[''/repo/new.bin'']"]
  by (simp add: example_simps is_staged_def reset_file_def checkout_file_def reset_def
      checkout_dashdash_def say_def Let_def)

text \<open>
  C3: for a staged path \<open>reset\<close> calls \<open>unstage\<close> first, as the claim says, and reads
  the status again in the world that \<open>unstage\<close> left. It then asks the binstore whether
  it has the path, and that method is not there: when \<open>unstage\<close> returned, \<open>reset\<close>
  raises \<open>AttributeError\<close> with the path unstaged and nothing copied, whatever the new
  status is. The claim has it copy the stored object back over the path when the path is
  in the store and the new status has the untracked or the modified bit.
\<close>

theorem reset_unstages_then_raises:
  assumes "is_staged env (gitrepo_status env (world st) filename)"
    and "gitrepo_unstage env filename (world st) = (r, w1)"
  shows "reset_file env b filename st =
           ((case r of None \<Rightarrow> Some (AttributeError ''has'') | Some e \<Rightarrow> Some e),
            \<lparr>world = w1, log = log st @ [RepoUnstage filename]\<rparr>)"
  using assms by (cases r) (simp_all add: reset_file_def invoke_def has_def Let_def)

text \<open>
  The run on \<open>/repo/new.bin\<close>: the path is staged, it is a link to the stored object of
  its digest, and after \<open>unstage\<close> its status has the untracked bit. The log holds the call
  of \<open>unstage\<close> and no copy.
\<close>

theorem reset_unstages_then_raises_witness:
  "is_staged example_env (gitrepo_status example_env (world (start example_world)) ''/repo/new.bin'')
   \<and> gitrepo_unstage example_env ''/repo/new.bin'' (world (start example_world))
       = (None, example_world\<lparr>statuses := (''/repo/new.bin'', 1) # statuses example_world\<rparr>)
   \<and> os_readlink example_env example_world ''/repo/new.bin''
       = os_path_join (localpath example_binstore) [''8277e0910d750195b448797616e091ad'']
   \<and> ''8277e0910d750195b448797616e091ad'' \<in> set (stored example_world)
   \<and> and (gitrepo_status example_env
            (example_world\<lparr>statuses := (''/repo/new.bin'', 1) # statuses example_world\<rparr>)
            ''/repo/new.bin'') (STATUS_UNTRACKED example_env) \<noteq> 0
   \<and> reset_file example_env example_binstore ''/repo/new.bin'' (start example_world)
       = (Some (AttributeError ''has''),
          \<lparr>world = example_world\<lparr>statuses := (''/repo/new.bin'', 1) # statuses example_world\<rparr>,
           log = [RepoUnstage ''/repo/new.bin'']\<rparr>)"
  using reset_unstages_then_raises [where env = example_env and st = "start example_world"
      and filename = "''/repo/new.bin''" and r = None and b = example_binstore
      and ?w1.0 = "example_world\<lparr>statuses := (''/repo/new.bin'', 1) # statuses example_world\<rparr>"]
  by (simp add: example_simps is_staged_def)

subsection \<open>Adding paths\<close>

text \<open>
  What \<open>add\<close> does to a path that exists and is a symbolic link: after the two printed
  lines it asks the binstore whether it has the target of the link. That method is not
  there: \<open>add\<close> raises \<open>AttributeError\<close>, and the paths after it are not processed.
\<close>

lemma add_loop_symlink:
  assumes "os_path_exists env (world st) f" and "os_path_islink env (world st) f"
  shows "add_loop n env b (f # rest) st = (Raised (AttributeError ''has_file''), say (Msg_file f) st)"
  using assms by (simp add: has_file_def Let_def)

text \<open>
  C1: \<open>/repo/alias.bin\<close> is a link as \<open>add_file\<close> makes them: its target is the alias
  \<open>localpath\<close> joined with the digest of an object in the store. \<open>is_binstore_link\<close> says
  it is no link into the store, because the target does not start with the store root
  \<open>self.path\<close>. Calling \<open>add\<close> on it is no quiet no-op: \<open>add\<close> raises
  \<open>AttributeError\<close> after two printed lines. The same holds for \<open>/repo/a.bin\<close>, whose
  target is under the store root.
\<close>

theorem add_tracked_link_raises:
  "os_path_exists example_env example_world ''/repo/alias.bin''
   \<and> os_path_islink example_env example_world ''/repo/alias.bin''
   \<and> os_readlink example_env example_world ''/repo/alias.bin''
       = os_path_join (localpath example_binstore) [''0cc175b9c0f1b6a831c399e269772661'']
   \<and> ''0cc175b9c0f1b6a831c399e269772661'' \<in> set (stored example_world)
   \<and> \<not> startswith (os_readlink example_env example_world ''/repo/alias.bin'')
          (path example_binstore)
   \<and> is_binstore_link example_env example_binstore example_world ''/repo/alias.bin''
       = Inr False
   \<and> add (Suc 0) example_env example_binstore [''/repo/alias.bin''] (start example_world)
       = (Raised (AttributeError ''has_file''),
          \<lparr>world = example_world,
           log = [Print (Msg_call ''GitBin.add'' [''/repo/alias.bin'']),
                  Print (Msg_file ''/repo/alias.bin'')]\<rparr>)
   \<and> add (Suc 0) example_env example_binstore [''/repo/a.bin''] (start example_world)
       = (Raised (AttributeError ''has_file''),
          \<lparr>world = example_world,
           log = [Print (Msg_call ''GitBin.add'' [''/repo/a.bin'']),
                  Print (Msg_file ''/repo/a.bin'')]\<rparr>)"
  by (simp add: example_simps is_binstore_link_def has_file_def say_def Let_def)

text \<open>
  C4: \<open>/repo/hosts\<close> exists and is a symbolic link whose target \<open>/etc/hosts\<close> is not in
  the store. \<open>add\<close> does not hand it to \<open>gitrepo.add\<close>: it raises \<open>AttributeError\<close> at the
  test of the target, and the log of the run has two printed lines and no call of the
  repository. The branch that the test guards would not call \<open>gitrepo.add\<close> either: it
  prints \<open>islink: DO_GIT_ADD\<close> and goes on to the next path.
\<close>

theorem add_plain_symlink_only_prints:
  "os_path_exists example_env example_world ''/repo/hosts''
   \<and> os_path_islink example_env example_world ''/repo/hosts''
   \<and> os_readlink example_env example_world ''/repo/hosts'' = ''/etc/hosts''
   \<and> add (Suc 0) example_env example_binstore [''/repo/hosts''] (start example_world)
       = (Raised (AttributeError ''has_file''),
          \<lparr>world = example_world,
           log = [Print (Msg_call ''GitBin.add'' [''/repo/hosts'']),
                  Print (Msg_file ''/repo/hosts'')]\<rparr>)"
  by (simp add: example_simps has_file_def say_def Let_def)

subsection \<open>Restoring, with a copy kept just in case\<close>

lemma justincase_relative:
  "\<not> startswith f ''/'' \<Longrightarrow> justincase_filename f d = ''/tmp/'' @ f @ ''.'' @ d @ ''.justincase''"
  by (cases f) (auto simp: justincase_filename_def os_path_join_def os_path_join2_def
      startswith_def endswith_def)

text \<open>
  C6: for a path that \<open>checkout_dashdash\<close> does not skip (its status is not fully staged
  and has a changed bit) and whose status has the type-changed bit, \<open>checkout_dashdash\<close>
  asks the binstore whether it has the path, and that method is not there: it raises
  \<open>AttributeError\<close> in the state it was in, with nothing copied and nothing restored.
  The claim has it save a copy and then restore the path.
\<close>

theorem checkout_backup_raises:
  assumes "\<not> is_staged env (gitrepo_status env (world st) f)"
    and "and (gitrepo_status env (world st) f) (STATUS_CHANGED_MASK env) \<noteq> 0"
    and "and (gitrepo_status env (world st) f) (STATUS_TYPECHANGED env) \<noteq> 0"
  shows "checkout_file env b f st = (Some (AttributeError ''has''), st)"
  using assms by (simp add: checkout_file_def has_def Let_def)

text \<open>
  The run on \<open>edited.bin\<close>, a real file that replaced a link: its status is type-changed
  and not staged, and the digest of its content is not in the store. The name that the
  line after the failing one would give the copy is \<open>/tmp/<path>.<digest>.justincase\<close>
  for this relative path; for the absolute path \<open>/repo/edited.bin\<close> it is not under
  \<open>/tmp\<close>.
\<close>

theorem checkout_backup_raises_witness:
  "\<not> is_staged example_env
        (gitrepo_status example_env (world (start example_world)) ''edited.bin'')
   \<and> and (gitrepo_status example_env (world (start example_world)) ''edited.bin'')
         (STATUS_CHANGED_MASK example_env) \<noteq> 0
   \<and> and (gitrepo_status example_env (world (start example_world)) ''edited.bin'')
         (STATUS_TYPECHANGED example_env) \<noteq> 0
   \<and> md5_file example_env example_world ''edited.bin''
       = Inr ''8fa14cdd754f91cc6554c9e71929cce7''
   \<and> ''8fa14cdd754f91cc6554c9e71929cce7'' \<notin> set (stored example_world)
   \<and> checkout_file example_env example_binstore ''edited.bin'' (start example_world)
       = (Some (AttributeError ''has''), \<lparr>world = example_world, log = []\<rparr>)
   \<and> justincase_filename ''edited.bin'' ''8fa14cdd754f91cc6554c9e71929cce7''
       = ''/tmp/edited.bin.8fa14cdd754f91cc6554c9e71929cce7.justincase''
   \<and> justincase_filename ''/repo/edited.bin'' ''8fa14cdd754f91cc6554c9e71929cce7''
       = ''/repo/edited.bin.8fa14cdd754f91cc6554c9e71929cce7.justincase''"
  using checkout_backup_raises [where env = example_env and st = "start example_world"
      and f = "''edited.bin''" and b = example_binstore]
  by (simp add: example_simps is_staged_def justincase_filename_def)

end
